theory Spec2Isabelle
  imports Complex_Main "HOL-Library.List_Lexorder"
begin

section \<open>Text cells\<close>

text \<open>
  A Python \<^verbatim>\<open>str\<close> is a sequence of Unicode code points, so it is a list of naturals
  here (the sentinel of the loader contains U+00E7 and U+00E3, which are one code point
  each in Python). A spreadsheet cell of a text column is a string or missing (pandas
  \<^verbatim>\<open>NaN\<close>): \<open>None\<close> is the missing cell. Column names are ASCII and are kept as
  HOL strings.
\<close>

type_synonym pstr = "nat list"
type_synonym cell = "pstr option"

definition ascii :: "string \<Rightarrow> pstr" where
  "ascii s = map of_char s"

text \<open>\<^verbatim>\<open>Series.fillna(v)\<close> on one cell.\<close>

definition fillna :: "'a \<Rightarrow> 'a option \<Rightarrow> 'a" where
  "fillna v c = (case c of None \<Rightarrow> v | Some x \<Rightarrow> x)"

text \<open>
  \<^verbatim>\<open>str.strip()\<close> without argument removes leading and trailing characters for which
  \<^verbatim>\<open>str.isspace()\<close> holds; the code points below are all of them.
\<close>

definition isspace :: "nat \<Rightarrow> bool" where
  "isspace c \<longleftrightarrow>
     (9 \<le> c \<and> c \<le> 13) \<or> (28 \<le> c \<and> c \<le> 32) \<or> c = 133 \<or> c = 160 \<or> c = 5760 \<or>
     (8192 \<le> c \<and> c \<le> 8202) \<or> c = 8232 \<or> c = 8233 \<or> c = 8239 \<or> c = 8287 \<or> c = 12288"

definition str_strip :: "pstr \<Rightarrow> pstr" where
  "str_strip s = rev (dropWhile isspace (rev (dropWhile isspace s)))"

text \<open>
  \<^verbatim>\<open>str.lower()\<close> follows the Unicode case tables. The table is written out for
  U+0000 to U+00FF, the range that holds every character of the sentinel; a code point
  above it is left as it is. The only code points above U+00FF that Python lowers into
  that range are U+0178, U+1E9E, U+212A and U+212B (to U+00FF, U+00DF, k and U+00E5),
  none of which occurs in the sentinel, so the comparison with the sentinel has the
  same outcome as in Python for every string.
\<close>

definition lower_cp :: "nat \<Rightarrow> nat" where
  "lower_cp c =
     (if (65 \<le> c \<and> c \<le> 90) \<or> (192 \<le> c \<and> c \<le> 214) \<or> (216 \<le> c \<and> c \<le> 222)
      then c + 32 else c)"

definition str_lower :: "pstr \<Rightarrow> pstr" where
  "str_lower s = map lower_cp s"

text \<open>
  The sentinel literal of the loader: "sem informa", U+00E7 (c with cedilla), U+00E3
  (a with tilde), "o".
\<close>

definition sem_informacao :: pstr where
  "sem_informacao = ascii ''sem informa'' @ [231, 227] @ ascii ''o''"

definition Com_Coordenador :: pstr where
  "Com_Coordenador = ascii ''Com Coordenador''"

definition Sem_Coordenador :: pstr where
  "Sem_Coordenador = ascii ''Sem Coordenador''"

text \<open>The default coordinator name of the detail table: the sentinel with a capital S.\<close>

definition Sem_informacao :: pstr where
  "Sem_informacao = ascii ''Sem informa'' @ [231, 227] @ ascii ''o''"

section \<open>The coordinator table\<close>

text \<open>
  A row of the sheet after the header row has been promoted and the columns renamed:
  the six columns the report reads. \<^verbatim>\<open>load_data_coordenadores\<close> reads the sheet (not
  modelled) and then adds the two derived columns to every row:
  \<^verbatim>\<open>
  df["TEM_COORDENADOR"] = ~df["COORDENADOR"].fillna("").str.strip().str.lower().eq(<sentinel>)
  df["STATUS_COORDENADOR"] = df["TEM_COORDENADOR"].map({True: "Com Coordenador", False: "Sem Coordenador"})
  \<close>
\<close>

record sheet_row =
  GRE :: cell
  INEP :: cell
  ESCOLA :: cell
  REDE :: cell
  POLO :: cell
  COORDENADOR :: cell

record coord_row = sheet_row +
  TEM_COORDENADOR :: bool
  STATUS_COORDENADOR :: pstr

definition tem_coordenador :: "cell \<Rightarrow> bool" where
  "tem_coordenador c \<longleftrightarrow> \<not> (str_lower (str_strip (fillna [] c)) = sem_informacao)"

definition status_of :: "bool \<Rightarrow> pstr" where
  "status_of b = (if b then Com_Coordenador else Sem_Coordenador)"

definition derive_row :: "sheet_row \<Rightarrow> coord_row" where
  "derive_row r =
     sheet_row.extend r
       \<lparr> TEM_COORDENADOR = tem_coordenador (COORDENADOR r),
         STATUS_COORDENADOR = status_of (tem_coordenador (COORDENADOR r)) \<rparr>"

definition load_data_coordenadores :: "sheet_row list \<Rightarrow> coord_row list" where
  "load_data_coordenadores sheet = map derive_row sheet"

section \<open>The totals table\<close>

text \<open>
  \<^verbatim>\<open>load_data_totais\<close> keeps whatever columns the sheet has, so the totals table is a
  header and rows that give a cell for every column name. Reading a column that the
  header lacks raises \<^verbatim>\<open>KeyError\<close>. The cells of the columns the report reads (GRE,
  POLO, ESCOLA) are text or missing, and the columns are text columns for pandas
  (\<^verbatim>\<open>object\<close>), as are those of the coordinator table: the merges of the report
  compare keys of one type. The names of a header are taken to be pairwise distinct.
\<close>

type_synonym trow = "string \<Rightarrow> cell"

record total_frame =
  columns :: "string list"
  rows :: "trow list"

datatype error = KeyError string | ZeroDivisionError | MergeError

section \<open>The pandas operations the report uses\<close>

text \<open>Dropping the missing cells; \<^verbatim>\<open>Series.nunique()\<close> does not count them.\<close>

definition dropna :: "'a option list \<Rightarrow> 'a list" where
  "dropna cs = List.map_filter (\<lambda>c. c) cs"

definition nunique :: "'a option list \<Rightarrow> nat" where
  "nunique cs = length (remdups (dropna cs))"

text \<open>
  \<^verbatim>\<open>df.groupby(k)[v].nunique().reset_index()\<close>: one row per key that is not missing,
  keys in ascending order (Python compares strings code point by code point, which is
  the lexicographic order of the lists), with the number of distinct values of the group.
\<close>

definition group_keys :: "cell list \<Rightarrow> pstr list" where
  "group_keys ks = sort (remdups (dropna ks))"

definition groupby_nunique :: "(cell \<times> cell) list \<Rightarrow> (pstr \<times> nat) list" where
  "groupby_nunique kvs =
     map (\<lambda>k. (k, nunique (map snd (filter (\<lambda>kv. fst kv = Some k) kvs))))
       (group_keys (map fst kvs))"

text \<open>
  \<^verbatim>\<open>pd.merge(left, right, on=key, how="left")\<close> on two-column frames: every left row, in
  the order of the left frame, once per right row with the same key, and once with a
  missing value when there is none.
\<close>

definition merge_left :: "('k \<times> 'a) list \<Rightarrow> ('k \<times> 'b) list \<Rightarrow> ('k \<times> 'a \<times> 'b option) list" where
  "merge_left left right =
     concat (map (\<lambda>(k, a).
        case filter (\<lambda>kb. fst kb = k) right of
          [] \<Rightarrow> [(k, a, None)]
        | ms \<Rightarrow> map (\<lambda>kb. (k, a, Some (snd kb))) ms) left)"

text \<open>
  A float of a pandas column: a number, infinity or \<^verbatim>\<open>NaN\<close>. Numbers are exact reals
  (rounding is not modelled). Division of two columns of counts does not raise where
  the divisor is zero: it gives \<^verbatim>\<open>NaN\<close> for 0/0 and infinity otherwise.
\<close>

datatype fval = NaN | Fin real | PosInf

definition div_series :: "nat \<Rightarrow> nat \<Rightarrow> fval" where
  "div_series a b =
     (if b = 0 then (if a = 0 then NaN else PosInf) else Fin (real a / real b))"

fun times100 :: "fval \<Rightarrow> fval" where
  "times100 NaN = NaN"
| "times100 (Fin x) = Fin (x * 100)"
| "times100 PosInf = PosInf"

fun fillna0 :: "fval \<Rightarrow> fval" where
  "fillna0 NaN = Fin 0"
| "fillna0 v = v"

definition percent :: "nat \<Rightarrow> nat \<Rightarrow> fval" where
  "percent a b = fillna0 (times100 (div_series a b))"

text \<open>
  \<open>fge a b\<close>: \<open>a\<close> may stand before \<open>b\<close> in a column sorted in descending order. It is
  \<open>\<ge>\<close> on numbers and infinity; \<^verbatim>\<open>NaN\<close> goes last (\<^verbatim>\<open>na_position="last"\<close>).
\<close>

fun fge :: "fval \<Rightarrow> fval \<Rightarrow> bool" where
  "fge _ NaN = True"
| "fge NaN _ = False"
| "fge PosInf _ = True"
| "fge (Fin x) PosInf = False"
| "fge (Fin x) (Fin y) = (y \<le> x)"

text \<open>
  \<^verbatim>\<open>sort_values(by=col, ascending=False)\<close>. pandas sorts with numpy's quicksort, which
  fixes no order among rows with equal keys; the model is an insertion sort that keeps
  them in their order of arrival.
\<close>

fun insert_desc :: "('a \<Rightarrow> fval) \<Rightarrow> 'a \<Rightarrow> 'a list \<Rightarrow> 'a list" where
  "insert_desc f x [] = [x]"
| "insert_desc f x (y # ys) =
     (if fge (f x) (f y) then x # y # ys else y # insert_desc f x ys)"

definition sort_values_desc :: "('a \<Rightarrow> fval) \<Rightarrow> 'a list \<Rightarrow> 'a list" where
  "sort_values_desc f xs = foldr (insert_desc f) xs []"

text \<open>Python's \<^verbatim>\<open>/\<close> on two numbers raises when the divisor is zero.\<close>

definition py_div :: "real \<Rightarrow> real \<Rightarrow> error + real" where
  "py_div a b = (if b = 0 then Inl ZeroDivisionError else Inr (a / b))"

section \<open>Aggregations\<close>

text \<open>
  \<^verbatim>\<open>
  total_escolas = df_total["ESCOLA"].nunique()
  escolas_com_coord = df_coord[df_coord["TEM_COORDENADOR"]]["ESCOLA"].nunique()
  if total_escolas == 0:
      return 0.0
  return (escolas_com_coord / total_escolas) * 100.0
  \<close>
\<close>

definition calcular_percentual_conclusao_diretores :: "coord_row list \<Rightarrow> total_frame \<Rightarrow> error + real" where
  "calcular_percentual_conclusao_diretores df_coord df_total =
     (if ''ESCOLA'' \<notin> set (columns df_total) then Inl (KeyError ''ESCOLA'')
      else
        let total_escolas = nunique (map (\<lambda>r. r ''ESCOLA'') (rows df_total));
            escolas_com_coord = nunique (map ESCOLA (filter TEM_COORDENADOR df_coord))
        in if total_escolas = 0 then Inr 0
           else case py_div (real escolas_com_coord) (real total_escolas) of
                  Inl e \<Rightarrow> Inl e
                | Inr q \<Rightarrow> Inr (q * 100))"

text \<open>
  A row of the result of \<^verbatim>\<open>agg_por_gre\<close> and \<^verbatim>\<open>agg_por_polo\<close>; \<open>grupo\<close> is the key
  column (GRE, respectively POLO).
\<close>

record agg_row =
  grupo :: pstr
  total_escolas :: nat
  escolas_com_coord :: nat
  perc_com_coord :: fval

text \<open>
  The part the two aggregations share, from the two grouped frames on:
  \<^verbatim>\<open>
  resumo = pd.merge(totais, com_coord, on=key, how="left").fillna(0)
  resumo["perc_com_coord"] = (resumo["escolas_com_coord"] / resumo["total_escolas"] * 100).fillna(0)
  resumo = resumo.sort_values(by="perc_com_coord", ascending=False).reset_index(drop=True)
  \<close>
\<close>

definition resumo_row :: "pstr \<times> nat \<times> nat option \<Rightarrow> agg_row" where
  "resumo_row m =
     (case m of (k, t, c) \<Rightarrow>
        \<lparr> grupo = k, total_escolas = t, escolas_com_coord = fillna 0 c,
          perc_com_coord = percent (fillna 0 c) t \<rparr>)"

definition resumo_of :: "(pstr \<times> nat) list \<Rightarrow> (pstr \<times> nat) list \<Rightarrow> agg_row list" where
  "resumo_of totais com_coord =
     sort_values_desc perc_com_coord (map resumo_row (merge_left totais com_coord))"

definition agg_por_gre :: "coord_row list \<Rightarrow> total_frame \<Rightarrow> error + agg_row list" where
  "agg_por_gre df_coord df_total =
     (if ''GRE'' \<notin> set (columns df_total) then Inl (KeyError ''GRE'')
      else if ''ESCOLA'' \<notin> set (columns df_total) then Inl (KeyError ''ESCOLA'')
      else
        let gre_totais = groupby_nunique (map (\<lambda>r. (r ''GRE'', r ''ESCOLA'')) (rows df_total));
            gre_com_coord =
              groupby_nunique (map (\<lambda>r. (GRE r, ESCOLA r)) (filter TEM_COORDENADOR df_coord))
        in Inr (resumo_of gre_totais gre_com_coord))"

definition agg_por_polo :: "coord_row list \<Rightarrow> total_frame \<Rightarrow> pstr \<Rightarrow> error + agg_row list" where
  "agg_por_polo df_coord df_total gre =
     (if ''GRE'' \<notin> set (columns df_total) then Inl (KeyError ''GRE'')
      else if ''POLO'' \<notin> set (columns df_total) then Inl (KeyError ''POLO'')
      else if ''ESCOLA'' \<notin> set (columns df_total) then Inl (KeyError ''ESCOLA'')
      else
        let total_polos =
              groupby_nunique (map (\<lambda>r. (r ''POLO'', r ''ESCOLA''))
                (filter (\<lambda>r. r ''GRE'' = Some gre) (rows df_total)));
            polos_com_coord =
              groupby_nunique (map (\<lambda>r. (POLO r, ESCOLA r))
                (filter (\<lambda>r. GRE r = Some gre \<and> TEM_COORDENADOR r) df_coord))
        in Inr (resumo_of total_polos polos_com_coord))"

section \<open>Records of one hub\<close>

text \<open>
  The dictionary \<^verbatim>\<open>df_coord.groupby("ESCOLA")["TEM_COORDENADOR"].max().to_dict()\<close>: a
  school of the coordinator table maps to the maximum of the flags of its rows, which is
  \<^verbatim>\<open>True\<close> when one of them is.
\<close>

definition mapa_coord :: "coord_row list \<Rightarrow> pstr \<rightharpoonup> bool" where
  "mapa_coord df_coord s =
     (case filter (\<lambda>r. ESCOLA r = Some s) df_coord of
        [] \<Rightarrow> None
      | g \<Rightarrow> Some (list_ex TEM_COORDENADOR g))"

text \<open>\<^verbatim>\<open>Series.map(dict)\<close> on one cell: a missing cell and a missing key give a missing value.\<close>

definition map_dict :: "('k \<rightharpoonup> 'v) \<Rightarrow> 'k option \<Rightarrow> 'v option" where
  "map_dict d c = (case c of None \<Rightarrow> None | Some k \<Rightarrow> d k)"

text \<open>\<^verbatim>\<open>df.groupby(col).size().reset_index()\<close> on a column without missing cells.\<close>

definition groupby_size :: "pstr list \<Rightarrow> (pstr \<times> nat) list" where
  "groupby_size xs = map (\<lambda>k. (k, length (filter (\<lambda>x. x = k) xs))) (sort (remdups xs))"

record status_row =
  status :: pstr
  qtd_registros :: nat
  percentual :: fval

text \<open>A record of the hub with the two columns \<^verbatim>\<open>resumo_status_polo\<close> adds to it.\<close>

record polo_row =
  registro :: trow
  tem :: bool
  rotulo :: pstr

definition marcar :: "(pstr \<rightharpoonup> bool) \<Rightarrow> trow \<Rightarrow> polo_row" where
  "marcar m r =
     (let t = fillna False (map_dict m (r ''ESCOLA''))
      in \<lparr> registro = r, tem = t, rotulo = status_of t \<rparr>)"

definition resumo_status_polo ::
  "coord_row list \<Rightarrow> total_frame \<Rightarrow> pstr \<Rightarrow> pstr \<Rightarrow> error + (status_row list \<times> polo_row list)" where
  "resumo_status_polo df_coord df_total gre polo =
     (if ''GRE'' \<notin> set (columns df_total) then Inl (KeyError ''GRE'')
      else if ''POLO'' \<notin> set (columns df_total) then Inl (KeyError ''POLO'')
      else if ''ESCOLA'' \<notin> set (columns df_total) then Inl (KeyError ''ESCOLA'')
      else
        let total_registros_polo =
              map (marcar (mapa_coord df_coord))
                (filter (\<lambda>r. r ''GRE'' = Some gre \<and> r ''POLO'' = Some polo) (rows df_total));
            resumo = groupby_size (map rotulo total_registros_polo);
            total = sum_list (map snd resumo)
        in Inr (map (\<lambda>(k, n). \<lparr> status = k, qtd_registros = n, percentual = percent n total \<rparr>) resumo,
                total_registros_polo))"

section \<open>The detail table\<close>

text \<open>
  The auxiliary frame: one row per school of the coordinator table (missing school
  names form no group), schools in ascending order;
  \<^verbatim>\<open>"first"\<close> is the first value of the group that is not missing, \<^verbatim>\<open>"max"\<close> of the
  flags is their disjunction.
\<close>

record aux_row =
  aux_ESCOLA :: pstr
  aux_INEP :: cell
  aux_COORDENADOR :: cell
  aux_TEM_COORDENADOR :: bool
  aux_STATUS_COORDENADOR :: cell

definition first_valid :: "'a option list \<Rightarrow> 'a option" where
  "first_valid cs = (case dropna cs of [] \<Rightarrow> None | x # _ \<Rightarrow> Some x)"

definition aux_of :: "coord_row list \<Rightarrow> aux_row list" where
  "aux_of df_coord =
     map (\<lambda>k. let g = filter (\<lambda>r. ESCOLA r = Some k) df_coord
              in \<lparr> aux_ESCOLA = k,
                   aux_INEP = first_valid (map INEP g),
                   aux_COORDENADOR = first_valid (map COORDENADOR g),
                   aux_TEM_COORDENADOR = list_ex TEM_COORDENADOR g,
                   aux_STATUS_COORDENADOR = first_valid (map (\<lambda>r. Some (STATUS_COORDENADOR r)) g) \<rparr>)
       (group_keys (map ESCOLA df_coord))"

definition aux_columns :: "string list" where
  "aux_columns = [''ESCOLA'', ''INEP'', ''COORDENADOR'', ''TEM_COORDENADOR'', ''STATUS_COORDENADOR'']"

text \<open>
  The header of \<^verbatim>\<open>left.merge(right, how="left", left_on=key, right_on=key)\<close>: the left
  columns, then the right ones without the key; a name that both sides have (the key
  apart) gets the suffix \<^verbatim>\<open>_x\<close> on the left and \<^verbatim>\<open>_y\<close> on the right. pandas raises
  \<^verbatim>\<open>MergeError\<close> when a suffix makes a name of one side occur twice.
\<close>

definition merge_columns_left :: "string list \<Rightarrow> string list \<Rightarrow> string \<Rightarrow> string list" where
  "merge_columns_left left right key =
     map (\<lambda>c. if c \<noteq> key \<and> c \<in> set right then c @ ''_x'' else c) left"

definition merge_columns_right :: "string list \<Rightarrow> string list \<Rightarrow> string \<Rightarrow> string list" where
  "merge_columns_right left right key =
     map (\<lambda>c. if c \<in> set left then c @ ''_y'' else c) (filter (\<lambda>c. c \<noteq> key) right)"

definition suffix_dups :: "string list \<Rightarrow> string list \<Rightarrow> bool" where
  "suffix_dups before after \<longleftrightarrow>
     list_ex (\<lambda>i. after ! i \<in> set (take i after) \<and> before ! i \<notin> set (take i before))
       [0 ..< length before]"

text \<open>The rows of the merge: a record and the row of the auxiliary frame it matched.\<close>

definition merge_rows :: "trow list \<Rightarrow> aux_row list \<Rightarrow> (trow \<times> aux_row option) list" where
  "merge_rows registros aux =
     concat (map (\<lambda>r.
        case filter (\<lambda>a. r ''ESCOLA'' = Some (aux_ESCOLA a)) aux of
          [] \<Rightarrow> [(r, None)]
        | ms \<Rightarrow> map (\<lambda>a. (r, Some a)) ms) registros)"

text \<open>
  A cell of a final column. The three columns of the auxiliary frame are read under
  their own names, which the merged frame has only when the totals table has no column
  of that name; the function below is used for such columns only. The two
  \<^verbatim>\<open>fillna\<close> of the source are applied here.
\<close>

definition final_cell :: "trow \<times> aux_row option \<Rightarrow> string \<Rightarrow> cell" where
  "final_cell m c =
     (case m of (r, a) \<Rightarrow>
        if c = ''INEP'' then (case a of None \<Rightarrow> None | Some x \<Rightarrow> aux_INEP x)
        else if c = ''COORDENADOR'' then
          Some (fillna Sem_informacao (case a of None \<Rightarrow> None | Some x \<Rightarrow> aux_COORDENADOR x))
        else if c = ''STATUS_COORDENADOR'' then
          Some (fillna Sem_Coordenador (case a of None \<Rightarrow> None | Some x \<Rightarrow> aux_STATUS_COORDENADOR x))
        else r c)"

record tabela =
  colunas :: "string list"
  linhas :: "cell list list"

text \<open>The header of \<^verbatim>\<open>registros\<close> after the merge with the auxiliary frame.\<close>

definition registros_columns :: "string list \<Rightarrow> string list" where
  "registros_columns left =
     merge_columns_left left aux_columns ''ESCOLA'' @ merge_columns_right left aux_columns ''ESCOLA''"

text \<open>
  \<^verbatim>\<open>
  colunas_finais = []
  if "GRE" in registros.columns: colunas_finais.append("GRE")
  if "POLO" in registros.columns: colunas_finais.append("POLO")
  colunas_finais += ["ESCOLA"]
  if "INEP" in registros.columns: colunas_finais.append("INEP")
  colunas_finais += ["COORDENADOR", "STATUS_COORDENADOR"]
  \<close>
\<close>

definition colunas_finais :: "string list \<Rightarrow> string list" where
  "colunas_finais left =
     (if ''GRE'' \<in> set (registros_columns left) then [''GRE''] else []) @
     (if ''POLO'' \<in> set (registros_columns left) then [''POLO''] else []) @
     [''ESCOLA''] @
     (if ''INEP'' \<in> set (registros_columns left) then [''INEP''] else []) @
     [''COORDENADOR'', ''STATUS_COORDENADOR'']"

text \<open>
  The function fails with \<^verbatim>\<open>KeyError\<close> where it reads a column that is not there: the
  filter reads GRE and POLO of the totals table, the merge reads its ESCOLA, and the two
  \<^verbatim>\<open>fillna\<close> lines read STATUS_COORDENADOR and COORDENADOR of the merged frame.
\<close>

definition detalhe_escolas ::
  "coord_row list \<Rightarrow> total_frame \<Rightarrow> pstr \<Rightarrow> pstr \<Rightarrow> error + tabela" where
  "detalhe_escolas df_coord df_total gre polo =
     (if ''GRE'' \<notin> set (columns df_total) then Inl (KeyError ''GRE'')
      else if ''POLO'' \<notin> set (columns df_total) then Inl (KeyError ''POLO'')
      else if ''ESCOLA'' \<notin> set (columns df_total) then Inl (KeyError ''ESCOLA'')
      else if suffix_dups (columns df_total)
                (merge_columns_left (columns df_total) aux_columns ''ESCOLA'')
        then Inl MergeError
      else if ''STATUS_COORDENADOR'' \<notin> set (registros_columns (columns df_total))
        then Inl (KeyError ''STATUS_COORDENADOR'')
      else if ''COORDENADOR'' \<notin> set (registros_columns (columns df_total))
        then Inl (KeyError ''COORDENADOR'')
      else
        Inr \<lparr> colunas = colunas_finais (columns df_total),
              linhas =
                map (\<lambda>m. map (final_cell m) (colunas_finais (columns df_total)))
                  (merge_rows
                     (filter (\<lambda>r. r ''GRE'' = Some gre \<and> r ''POLO'' = Some polo) (rows df_total))
                     (aux_of df_coord)) \<rparr>)"

section \<open>Example tables\<close>

definition total_row :: "string \<Rightarrow> string \<Rightarrow> string \<Rightarrow> trow" where
  "total_row g p s =
     (\<lambda>c. if c = ''GRE'' then Some (ascii g) else if c = ''POLO'' then Some (ascii p)
          else if c = ''ESCOLA'' then Some (ascii s) else None)"

definition sheet_de :: "string \<Rightarrow> string \<Rightarrow> string \<Rightarrow> cell \<Rightarrow> sheet_row" where
  "sheet_de g p s c =
     \<lparr> GRE = Some (ascii g), INEP = Some (ascii ''26000000''), ESCOLA = Some (ascii s),
       REDE = None, POLO = Some (ascii p), COORDENADOR = c \<rparr>"

text \<open>
  The scenario of the specification: region R1 with the schools A, B and C, school A
  marked with the sentinel and school B with a coordinator; a second region R2.
\<close>

definition coord0 :: "coord_row list" where
  "coord0 = load_data_coordenadores
     [sheet_de ''R1'' ''P1'' ''A'' (Some sem_informacao),
      sheet_de ''R1'' ''P1'' ''B'' (Some (ascii ''Joao''))]"

definition total0 :: total_frame where
  "total0 = \<lparr> columns = [''GRE'', ''POLO'', ''ESCOLA''],
     rows = [total_row ''R1'' ''P1'' ''A'', total_row ''R1'' ''P1'' ''B'',
             total_row ''R1'' ''P1'' ''C'', total_row ''R2'' ''P2'' ''D''] \<rparr>"

text \<open>A coordinator table with a coordinated school that the totals table does not list.\<close>

definition coord1 :: "coord_row list" where
  "coord1 = load_data_coordenadores
     [sheet_de ''R1'' ''P1'' ''A'' (Some (ascii ''Ana'')),
      sheet_de ''R1'' ''P1'' ''B'' (Some (ascii ''Joao''))]"

definition total1 :: total_frame where
  "total1 = \<lparr> columns = [''GRE'', ''POLO'', ''ESCOLA''], rows = [total_row ''R1'' ''P1'' ''A''] \<rparr>"

text \<open>A totals table that has an identifier column of its own.\<close>

definition total2 :: total_frame where
  "total2 = \<lparr> columns = [''GRE'', ''POLO'', ''ESCOLA'', ''INEP''],
     rows = [total_row ''R1'' ''P1'' ''A''] \<rparr>"

text \<open>A coordinator table whose only row has no coordinator name.\<close>

definition coord2 :: "coord_row list" where
  "coord2 = load_data_coordenadores [sheet_de ''R1'' ''P1'' ''A'' None]"

section \<open>The quantities the specification names\<close>

text \<open>
  The distinct schools of the totals table, and the distinct schools of the coordinator
  table that have a row with the flag set. A missing school name is not a school.
\<close>

definition escolas_total :: "total_frame \<Rightarrow> pstr set" where
  "escolas_total df_total = Option.these ((\<lambda>r. r ''ESCOLA'') ` set (rows df_total))"

definition escolas_coordenadas :: "coord_row list \<Rightarrow> pstr set" where
  "escolas_coordenadas df_coord =
     Option.these (ESCOLA ` set (filter TEM_COORDENADOR df_coord))"

text \<open>
  The regions of the totals table, the schools the totals table lists for a region, and
  the schools of the coordinator table that have a row with the flag set in a region.
\<close>

definition regioes_total :: "total_frame \<Rightarrow> pstr set" where
  "regioes_total df_total = Option.these ((\<lambda>r. r ''GRE'') ` set (rows df_total))"

definition escolas_da_regiao :: "total_frame \<Rightarrow> pstr \<Rightarrow> pstr set" where
  "escolas_da_regiao df_total g =
     Option.these ((\<lambda>r. r ''ESCOLA'') ` set (filter (\<lambda>r. r ''GRE'' = Some g) (rows df_total)))"

definition escolas_coordenadas_da_regiao :: "coord_row list \<Rightarrow> pstr \<Rightarrow> pstr set" where
  "escolas_coordenadas_da_regiao df_coord g =
     Option.these (ESCOLA ` set (filter (\<lambda>r. GRE r = Some g) (filter TEM_COORDENADOR df_coord)))"

section \<open>The loader\<close>

lemma derive_row_sheet:
  "GRE (derive_row r) = GRE r" "INEP (derive_row r) = INEP r" "ESCOLA (derive_row r) = ESCOLA r"
  "REDE (derive_row r) = REDE r" "POLO (derive_row r) = POLO r"
  by (simp_all add: derive_row_def sheet_row.defs)

lemma derive_row_fields:
  "COORDENADOR (derive_row r) = COORDENADOR r"
  "TEM_COORDENADOR (derive_row r) = tem_coordenador (COORDENADOR r)"
  "STATUS_COORDENADOR (derive_row r) = status_of (tem_coordenador (COORDENADOR r))"
  by (simp_all add: derive_row_def sheet_row.defs)

text \<open>
  Where the coordinator cell holds a string, the flag of the loaded row is the
  comparison of the trimmed, lower-cased string with the sentinel.
\<close>

lemma tem_coordenador_present:
  "r \<in> set (load_data_coordenadores sheet) \<Longrightarrow> COORDENADOR r = Some s \<Longrightarrow>
     TEM_COORDENADOR r \<longleftrightarrow> str_lower (str_strip s) \<noteq> sem_informacao"
  by (auto simp: load_data_coordenadores_def derive_row_fields tem_coordenador_def fillna_def)

text \<open>
  C1. A missing or empty coordinator cell counts as "no information", so the flag of
  such a row is to be \<open>False\<close>. The loader does not do this: it replaces a missing
  cell by the empty string and compares with the sentinel only, so a row whose
  coordinator cell is missing and a row whose coordinator cell is the empty string
  both get the flag \<open>True\<close>. The rest of the report reads a missing value the other
  way: \<^verbatim>\<open>detalhe_escolas\<close> fills a missing coordinator name with the sentinel and
  \<^verbatim>\<open>resumo_status_polo\<close> fills a missing flag with \<^verbatim>\<open>False\<close>.
\<close>

theorem C1_missing_coordinator_flag:
  "map TEM_COORDENADOR (load_data_coordenadores
      [\<lparr> GRE = None, INEP = None, ESCOLA = None, REDE = None, POLO = None,
          COORDENADOR = None \<rparr>,
       \<lparr> GRE = None, INEP = None, ESCOLA = None, REDE = None, POLO = None,
          COORDENADOR = Some [] \<rparr>])
   = [True, True]"
  by (simp add: load_data_coordenadores_def derive_row_fields(2) tem_coordenador_def fillna_def
      str_lower_def str_strip_def sem_informacao_def ascii_def)

section \<open>The completion percentage\<close>

lemma set_dropna: "set (dropna cs) = Option.these (set cs)"
  by (simp add: dropna_def these_set_code)

lemma nunique_card: "nunique cs = card (Option.these (set cs))"
  by (simp add: nunique_def length_remdups_card_conv set_dropna)

lemma nunique_total:
  "nunique (map (\<lambda>r. r ''ESCOLA'') (rows df_total)) = card (escolas_total df_total)"
  by (simp add: nunique_card escolas_total_def)

lemma nunique_coord:
  "nunique (map ESCOLA (filter TEM_COORDENADOR df_coord)) = card (escolas_coordenadas df_coord)"
  by (simp add: nunique_card escolas_coordenadas_def)


lemma calcular_percentual_value:
  assumes "''ESCOLA'' \<in> set (columns df_total)"
  shows "calcular_percentual_conclusao_diretores df_coord df_total =
     Inr (if card (escolas_total df_total) = 0 then 0
          else real (card (escolas_coordenadas df_coord)) / real (card (escolas_total df_total)) * 100)"
  using assms
  unfolding calcular_percentual_conclusao_diretores_def nunique_total nunique_coord
  by (simp add: py_div_def Let_def)

text \<open>Facts for evaluating the functions on the example tables.\<close>

lemmas example_defs =
  load_data_coordenadores_def derive_row_fields derive_row_sheet sheet_de_def total_row_def
  tem_coordenador_def status_of_def fillna_def str_lower_def str_strip_def sem_informacao_def
  Com_Coordenador_def Sem_Coordenador_def ascii_def isspace_def lower_cp_def Let_def

lemma calcular_coord0_total0: "calcular_percentual_conclusao_diretores coord0 total0 = Inr 25"
  by (simp add: coord0_def total0_def calcular_percentual_conclusao_diretores_def nunique_def
      dropna_def py_div_def example_defs)




text \<open>
  C2. When the totals table has the school column, the calculator returns a value (no
  exception): 0 when the totals table has no distinct school, and otherwise the number of
  distinct coordinated schools of the coordinator table divided by the number of
  distinct schools of the totals table, times 100.
\<close>

theorem C2_percentual:
  "''ESCOLA'' \<in> set (columns df_total) \<Longrightarrow>
   calcular_percentual_conclusao_diretores df_coord df_total =
     Inr (if card (escolas_total df_total) = 0 then 0
          else real (card (escolas_coordenadas df_coord)) / real (card (escolas_total df_total)) * 100)"
  by (rule calcular_percentual_value)

theorem C2_percentual_witness:
  "''ESCOLA'' \<in> set (columns total0) \<and>
   calcular_percentual_conclusao_diretores coord0 total0 = Inr 25 \<and>
   (if card (escolas_total total0) = 0 then 0
    else real (card (escolas_coordenadas coord0)) / real (card (escolas_total total0)) * 100) = 25"
proof -
  have h: "''ESCOLA'' \<in> set (columns total0)"
    by (simp add: total0_def)
  from C2_percentual [OF h, of coord0] show ?thesis
    using h by (simp only: calcular_coord0_total0 sum.inject simp_thms)
qed




section \<open>Sorting, grouping and merging\<close>

lemma fge_total: "fge a b \<or> fge b a"
  by (cases a; cases b) auto

lemma fge_trans: "fge a b \<Longrightarrow> fge b c \<Longrightarrow> fge a c"
  by (cases a; cases b; cases c) auto

lemma set_insert_desc: "set (insert_desc f x xs) = insert x (set xs)"
  by (induction xs) auto

lemma length_insert_desc: "length (insert_desc f x xs) = Suc (length xs)"
  by (induction xs) auto

lemma distinct_map_insert_desc:
  "distinct (map g (insert_desc f x xs)) \<longleftrightarrow> g x \<notin> g ` set xs \<and> distinct (map g xs)"
  by (induction xs) (auto simp: set_insert_desc)

lemma sorted_insert_desc:
  "sorted_wrt (\<lambda>a b. fge (f a) (f b)) xs \<Longrightarrow> sorted_wrt (\<lambda>a b. fge (f a) (f b)) (insert_desc f x xs)"
proof (induction xs)
  case Nil
  then show ?case by simp
next
  case (Cons y ys)
  show ?case
  proof (cases "fge (f x) (f y)")
    case True
    with Cons.prems show ?thesis
      by (auto intro: fge_trans)
  next
    case False
    then have "fge (f y) (f x)"
      using fge_total by blast
    with False Cons show ?thesis
      by (auto simp: set_insert_desc)
  qed
qed

lemma set_sort_values_desc: "set (sort_values_desc f xs) = set xs"
  by (induction xs) (simp_all add: sort_values_desc_def set_insert_desc)

lemma length_sort_values_desc: "length (sort_values_desc f xs) = length xs"
  by (induction xs) (simp_all add: sort_values_desc_def length_insert_desc)

lemma distinct_map_sort_values_desc:
  "distinct (map g (sort_values_desc f xs)) = distinct (map g xs)"
proof (induction xs)
  case Nil
  show ?case by (simp add: sort_values_desc_def)
next
  case (Cons x xs)
  have "sort_values_desc f (x # xs) = insert_desc f x (sort_values_desc f xs)"
    by (simp add: sort_values_desc_def)
  with Cons show ?case
    by (simp add: distinct_map_insert_desc set_sort_values_desc)
qed

lemma sorted_sort_values_desc:
  "sorted_wrt (\<lambda>a b. fge (f a) (f b)) (sort_values_desc f xs)"
  by (induction xs) (simp_all add: sort_values_desc_def sorted_insert_desc)

lemma sort_values_desc_adjacent:
  "Suc i < length (sort_values_desc f xs) \<Longrightarrow>
   fge (f (sort_values_desc f xs ! i)) (f (sort_values_desc f xs ! Suc i))"
  using sorted_sort_values_desc [of f xs] by (simp add: sorted_wrt_iff_nth_less)

lemma percent_not_NaN: "percent a b \<noteq> NaN"
  by (simp add: percent_def div_series_def)

lemma set_group_keys: "set (group_keys ks) = Option.these (set ks)"
  by (simp add: group_keys_def set_dropna)

lemma distinct_group_keys: "distinct (group_keys ks)"
  by (simp add: group_keys_def)

lemma keys_groupby_nunique: "map fst (groupby_nunique kvs) = group_keys (map fst kvs)"
  by (simp add: groupby_nunique_def comp_def)

lemma filter_unique_key:
  "distinct (map fst right) \<Longrightarrow>
   filter (\<lambda>kb. fst kb = k) right = (case map_of right k of None \<Rightarrow> [] | Some b \<Rightarrow> [(k, b)])"
proof (induction right)
  case Nil
  show ?case by simp
next
  case (Cons kb right)
  obtain k' b' where kb: "kb = (k', b')" by (cases kb)
  show ?case
  proof (cases "k' = k")
    case True
    with Cons.prems kb have "k \<notin> fst ` set right" by auto
    then have "map_of right k = None" "filter (\<lambda>kb. fst kb = k) right = []"
      by (auto simp: map_of_eq_None_iff filter_empty_conv)
    with True kb show ?thesis by simp
  next
    case False
    with Cons kb show ?thesis by simp
  qed
qed

lemma merge_left_unique:
  "distinct (map fst right) \<Longrightarrow>
   merge_left left right = map (\<lambda>(k, a). (k, a, map_of right k)) left"
  by (induction left) (auto simp: merge_left_def filter_unique_key split: option.splits)

section \<open>The aggregation by region\<close>

lemma group_count:
  "nunique (map snd (filter (\<lambda>kv. fst kv = Some k) (map (\<lambda>r. (key r, val r)) xs))) =
   card (Option.these (val ` set (filter (\<lambda>r. key r = Some k) xs)))"
  by (simp add: nunique_card filter_map comp_def image_image)

lemma map_of_groupby_nunique:
  "map_of (groupby_nunique kvs) k =
     (if k \<in> set (group_keys (map fst kvs))
      then Some (nunique (map snd (filter (\<lambda>kv. fst kv = Some k) kvs))) else None)"
  by (simp add: groupby_nunique_def map_of_map_restrict restrict_map_def)

lemma fillna_groupby_nunique:
  "fillna 0 (map_of (groupby_nunique (map (\<lambda>r. (key r, val r)) xs)) k) =
   card (Option.these (val ` set (filter (\<lambda>r. key r = Some k) xs)))"
proof (cases "k \<in> set (group_keys (map key xs))")
  case True
  then show ?thesis
    by (simp add: map_of_groupby_nunique fillna_def group_count comp_def)
next
  case False
  then have "filter (\<lambda>r. key r = Some k) xs = []"
    by (auto simp: set_group_keys in_these_eq filter_empty_conv image_iff)
  with False show ?thesis
    by (simp add: map_of_groupby_nunique fillna_def comp_def)
qed

lemma resumo_of_unique:
  "resumo_of (groupby_nunique (map (\<lambda>r. (key r, val r)) xs))
             (groupby_nunique (map (\<lambda>r. (key' r, val' r)) ys)) =
   sort_values_desc perc_com_coord
     (map (\<lambda>k.
        \<lparr> grupo = k,
          total_escolas = card (Option.these (val ` set (filter (\<lambda>r. key r = Some k) xs))),
          escolas_com_coord = card (Option.these (val' ` set (filter (\<lambda>r. key' r = Some k) ys))),
          perc_com_coord =
            percent (card (Option.these (val' ` set (filter (\<lambda>r. key' r = Some k) ys))))
                    (card (Option.these (val ` set (filter (\<lambda>r. key r = Some k) xs)))) \<rparr>)
      (group_keys (map key xs)))"
proof -
  define com where "com = groupby_nunique (map (\<lambda>r. (key' r, val' r)) ys)"
  have d: "distinct (map fst com)"
    by (simp add: com_def keys_groupby_nunique distinct_group_keys)
  have f: "fillna 0 (map_of com k) =
      card (Option.these (val' ` set (filter (\<lambda>r. key' r = Some k) ys)))" for k
    unfolding com_def by (rule fillna_groupby_nunique)
  have "resumo_of (groupby_nunique (map (\<lambda>r. (key r, val r)) xs)) com =
      sort_values_desc perc_com_coord
        (map (\<lambda>k. resumo_row
           (k, nunique (map snd (filter (\<lambda>kv. fst kv = Some k) (map (\<lambda>r. (key r, val r)) xs))),
            map_of com k))
         (group_keys (map key xs)))"
    unfolding resumo_of_def merge_left_unique [OF d]
    by (simp add: groupby_nunique_def comp_def)
  then show ?thesis
    unfolding com_def [symmetric] by (simp add: resumo_row_def f group_count)
qed


lemma agg_por_gre_value:
  assumes "''GRE'' \<in> set (columns df_total)" and "''ESCOLA'' \<in> set (columns df_total)"
  shows "agg_por_gre df_coord df_total =
     Inr (sort_values_desc perc_com_coord
       (map (\<lambda>k.
          \<lparr> grupo = k,
            total_escolas = card (escolas_da_regiao df_total k),
            escolas_com_coord = card (escolas_coordenadas_da_regiao df_coord k),
            perc_com_coord =
              percent (card (escolas_coordenadas_da_regiao df_coord k))
                      (card (escolas_da_regiao df_total k)) \<rparr>)
        (group_keys (map (\<lambda>r. r ''GRE'') (rows df_total)))))"
  using assms
  by (simp add: agg_por_gre_def resumo_of_unique escolas_da_regiao_def
      escolas_coordenadas_da_regiao_def)

lemma agg_por_gre_rows:
  assumes "''GRE'' \<in> set (columns df_total)" and "''ESCOLA'' \<in> set (columns df_total)"
  shows "\<exists>resumo. agg_por_gre df_coord df_total = Inr resumo \<and>
     distinct (map grupo resumo) \<and>
     set (map grupo resumo) = regioes_total df_total \<and>
     (\<forall>row\<in>set resumo.
        total_escolas row = card (escolas_da_regiao df_total (grupo row)) \<and>
        escolas_com_coord row = card (escolas_coordenadas_da_regiao df_coord (grupo row)))"
proof -
  let ?ks = "group_keys (map (\<lambda>r. r ''GRE'') (rows df_total))"
  let ?row = "\<lambda>k.
          \<lparr> grupo = k,
            total_escolas = card (escolas_da_regiao df_total k),
            escolas_com_coord = card (escolas_coordenadas_da_regiao df_coord k),
            perc_com_coord =
              percent (card (escolas_coordenadas_da_regiao df_coord k))
                      (card (escolas_da_regiao df_total k)) \<rparr>"
  let ?out = "sort_values_desc perc_com_coord (map ?row ?ks)"
  have g: "map grupo (map ?row ?ks) = ?ks"
    by (simp add: comp_def)
  have "distinct (map grupo ?out)"
    by (simp only: distinct_map_sort_values_desc g distinct_group_keys)
  moreover have "set (map grupo ?out) = regioes_total df_total"
    by (simp add: set_sort_values_desc set_group_keys regioes_total_def image_image)
  moreover have "\<forall>row\<in>set ?out.
        total_escolas row = card (escolas_da_regiao df_total (grupo row)) \<and>
        escolas_com_coord row = card (escolas_coordenadas_da_regiao df_coord (grupo row))"
    by (auto simp: set_sort_values_desc)
  ultimately show ?thesis
    using agg_por_gre_value [OF assms, of df_coord] by blast
qed

lemma agg_por_gre_coord0_total0:
  "agg_por_gre coord0 total0 =
     Inr [\<lparr> grupo = ascii ''R1'', total_escolas = 3, escolas_com_coord = 1,
             perc_com_coord = Fin (100 / 3) \<rparr>,
          \<lparr> grupo = ascii ''R2'', total_escolas = 1, escolas_com_coord = 0,
             perc_com_coord = Fin 0 \<rparr>]"
  by (simp add: coord0_def total0_def agg_por_gre_def resumo_of_def merge_left_def
      groupby_nunique_def group_keys_def nunique_def dropna_def resumo_row_def percent_def
      div_series_def sort_values_desc_def example_defs)

lemma agg_por_gre_coord1_total1:
  "agg_por_gre coord1 total1 =
     Inr [\<lparr> grupo = ascii ''R1'', total_escolas = 1, escolas_com_coord = 2,
             perc_com_coord = Fin 200 \<rparr>]"
  by (simp add: coord1_def total1_def agg_por_gre_def resumo_of_def merge_left_def
      groupby_nunique_def group_keys_def nunique_def dropna_def resumo_row_def percent_def
      div_series_def sort_values_desc_def example_defs)

lemma finite_these: "finite A \<Longrightarrow> finite (Option.these A)"
  by (simp add: Option.these_def)

lemma finite_escolas_da_regiao: "finite (escolas_da_regiao df_total g)"
  by (simp add: escolas_da_regiao_def finite_these)

lemma resumo_of_not_NaN: "row \<in> set (resumo_of a b) \<Longrightarrow> perc_com_coord row \<noteq> NaN"
  by (auto simp: resumo_of_def set_sort_values_desc resumo_row_def percent_not_NaN)

lemma resumo_of_adjacent:
  "Suc i < length (resumo_of a b) \<Longrightarrow>
   fge (perc_com_coord (resumo_of a b ! i)) (perc_com_coord (resumo_of a b ! Suc i))"
  unfolding resumo_of_def by (rule sort_values_desc_adjacent)

text \<open>
  C4. When the totals table has the region and school columns, the aggregation by
  region returns a table whose keys are exactly the regions of the totals table (missing
  region cells are no region), one row per region; a region without coordinated school
  has the count 0, and a region that only the coordinator table has gives no row.
\<close>

theorem C4_region_keys:
  "''GRE'' \<in> set (columns df_total) \<Longrightarrow> ''ESCOLA'' \<in> set (columns df_total) \<Longrightarrow>
   \<exists>resumo. agg_por_gre df_coord df_total = Inr resumo \<and>
     set (map grupo resumo) = regioes_total df_total \<and>
     length resumo = card (regioes_total df_total) \<and>
     (\<forall>row\<in>set resumo.
        escolas_coordenadas_da_regiao df_coord (grupo row) = {} \<longrightarrow> escolas_com_coord row = 0) \<and>
     (\<forall>g. g \<notin> regioes_total df_total \<longrightarrow> g \<notin> set (map grupo resumo))"
proof -
  assume h: "''GRE'' \<in> set (columns df_total)" "''ESCOLA'' \<in> set (columns df_total)"
  from agg_por_gre_rows [OF h, of df_coord] obtain resumo where
    r: "agg_por_gre df_coord df_total = Inr resumo" and
    d: "distinct (map grupo resumo)" and
    s: "set (map grupo resumo) = regioes_total df_total" and
    c: "\<forall>row\<in>set resumo.
        total_escolas row = card (escolas_da_regiao df_total (grupo row)) \<and>
        escolas_com_coord row = card (escolas_coordenadas_da_regiao df_coord (grupo row))"
    by blast
  have "length resumo = length (map grupo resumo)"
    by simp
  also have "\<dots> = card (regioes_total df_total)"
    using distinct_card [OF d] s by simp
  finally have l: "length resumo = card (regioes_total df_total)" .
  have z: "\<forall>row\<in>set resumo.
        escolas_coordenadas_da_regiao df_coord (grupo row) = {} \<longrightarrow> escolas_com_coord row = 0"
    using c by simp
  show ?thesis
    using r s l z by blast
qed

theorem C4_region_keys_witness:
  "''GRE'' \<in> set (columns total0) \<and> ''ESCOLA'' \<in> set (columns total0) \<and>
   regioes_total total0 = {ascii ''R1'', ascii ''R2''} \<and>
   (\<exists>resumo. agg_por_gre coord0 total0 = Inr resumo \<and>
     set (map grupo resumo) = regioes_total total0 \<and>
     length resumo = card (regioes_total total0) \<and>
     (\<forall>row\<in>set resumo.
        escolas_coordenadas_da_regiao coord0 (grupo row) = {} \<longrightarrow> escolas_com_coord row = 0) \<and>
     (\<forall>g. g \<notin> regioes_total total0 \<longrightarrow> g \<notin> set (map grupo resumo)))"
proof -
  have h: "''GRE'' \<in> set (columns total0)" "''ESCOLA'' \<in> set (columns total0)"
    by (simp_all add: total0_def)
  have e: "regioes_total total0 = {ascii ''R1'', ascii ''R2''}"
    by (simp add: regioes_total_def total0_def total_row_def)
  from C4_region_keys [OF h, of coord0] show ?thesis
    using h e by blast
qed

text \<open>
  C5, as the code has it. The two counts of a row come from the two tables separately.
  When every coordinated row of the coordinator table that has a region and a school
  has a row of the totals table with the same region and school, every row of the
  result has at least as many schools as coordinated schools.
\<close>

theorem C5_total_ge_coordenadas:
  assumes "''GRE'' \<in> set (columns df_total)" and "''ESCOLA'' \<in> set (columns df_total)"
    and "\<forall>r\<in>set df_coord. TEM_COORDENADOR r \<and> GRE r \<noteq> None \<and> ESCOLA r \<noteq> None \<longrightarrow>
           (\<exists>t\<in>set (rows df_total). t ''GRE'' = GRE r \<and> t ''ESCOLA'' = ESCOLA r)"
  shows "\<exists>resumo. agg_por_gre df_coord df_total = Inr resumo \<and>
     (\<forall>row\<in>set resumo. escolas_com_coord row \<le> total_escolas row)"
proof -
  have sub: "escolas_coordenadas_da_regiao df_coord g \<subseteq> escolas_da_regiao df_total g" for g
  proof
    fix s
    assume "s \<in> escolas_coordenadas_da_regiao df_coord g"
    then obtain r where r: "r \<in> set df_coord" "TEM_COORDENADOR r" "GRE r = Some g" "ESCOLA r = Some s"
      by (auto simp: escolas_coordenadas_da_regiao_def in_these_eq image_iff)
    with assms(3) obtain t where "t \<in> set (rows df_total)" "t ''GRE'' = Some g" "t ''ESCOLA'' = Some s"
      by fastforce
    then show "s \<in> escolas_da_regiao df_total g"
      by (auto simp: escolas_da_regiao_def in_these_eq image_iff)
  qed
  have le: "card (escolas_coordenadas_da_regiao df_coord g) \<le> card (escolas_da_regiao df_total g)" for g
    using sub finite_escolas_da_regiao by (rule card_mono [rotated])
  from agg_por_gre_rows [OF assms(1,2), of df_coord] obtain resumo where
    r: "agg_por_gre df_coord df_total = Inr resumo" and
    c: "\<forall>row\<in>set resumo.
        total_escolas row = card (escolas_da_regiao df_total (grupo row)) \<and>
        escolas_com_coord row = card (escolas_coordenadas_da_regiao df_coord (grupo row))"
    by blast
  from c le have "\<forall>row\<in>set resumo. escolas_com_coord row \<le> total_escolas row"
    by simp
  with r show ?thesis by blast
qed

theorem C5_total_ge_coordenadas_witness:
  "''GRE'' \<in> set (columns total0) \<and> ''ESCOLA'' \<in> set (columns total0) \<and>
   list_all (\<lambda>r. TEM_COORDENADOR r \<and> GRE r \<noteq> None \<and> ESCOLA r \<noteq> None \<longrightarrow>
      list_ex (\<lambda>t. t ''GRE'' = GRE r \<and> t ''ESCOLA'' = ESCOLA r) (rows total0)) coord0 \<and>
   (\<exists>resumo. agg_por_gre coord0 total0 = Inr resumo \<and>
     (\<forall>row\<in>set resumo. escolas_com_coord row \<le> total_escolas row))"
proof -
  have h: "''GRE'' \<in> set (columns total0)" "''ESCOLA'' \<in> set (columns total0)"
    by (simp_all add: total0_def)
  have j: "\<forall>r\<in>set coord0. TEM_COORDENADOR r \<and> GRE r \<noteq> None \<and> ESCOLA r \<noteq> None \<longrightarrow>
           (\<exists>t\<in>set (rows total0). t ''GRE'' = GRE r \<and> t ''ESCOLA'' = ESCOLA r)"
    by (simp add: coord0_def total0_def example_defs)
  then have k: "list_all (\<lambda>r. TEM_COORDENADOR r \<and> GRE r \<noteq> None \<and> ESCOLA r \<noteq> None \<longrightarrow>
      list_ex (\<lambda>t. t ''GRE'' = GRE r \<and> t ''ESCOLA'' = ESCOLA r) (rows total0)) coord0"
    by (simp add: list_all_iff list_ex_iff)
  from C5_total_ge_coordenadas [OF h j] show ?thesis
    using h k by blast
qed

text \<open>
  C5 as stated fails: the coordinator table has two coordinated schools in region R1,
  the totals table lists one school there, and the row of R1 has 1 school and 2
  coordinated schools.
\<close>

theorem C5_more_coordenadas_counterexample:
  "agg_por_gre coord1 total1 =
     Inr [\<lparr> grupo = ascii ''R1'', total_escolas = 1, escolas_com_coord = 2,
             perc_com_coord = Fin 200 \<rparr>] \<and>
   \<not> escolas_com_coord \<lparr> grupo = ascii ''R1'', total_escolas = 1, escolas_com_coord = 2,
             perc_com_coord = Fin 200 \<rparr>
     \<le> total_escolas \<lparr> grupo = ascii ''R1'', total_escolas = 1, escolas_com_coord = 2,
             perc_com_coord = Fin 200 \<rparr>"
  by (simp add: agg_por_gre_coord1_total1)

text \<open>
  C6. When the totals table has the region, hub and school columns, both aggregations
  return a table in which every row's percentage is at least the percentage of the
  next row; no percentage is \<^verbatim>\<open>NaN\<close>, so \<open>fge\<close> is the order of the numbers with
  infinity on top.
\<close>

theorem C6_sorted_desc:
  assumes "''GRE'' \<in> set (columns df_total)" and "''POLO'' \<in> set (columns df_total)"
    and "''ESCOLA'' \<in> set (columns df_total)"
  shows "\<exists>por_gre por_polo.
     agg_por_gre df_coord df_total = Inr por_gre \<and>
     agg_por_polo df_coord df_total gre = Inr por_polo \<and>
     (\<forall>i. Suc i < length por_gre \<longrightarrow>
        fge (perc_com_coord (por_gre ! i)) (perc_com_coord (por_gre ! Suc i))) \<and>
     (\<forall>i. Suc i < length por_polo \<longrightarrow>
        fge (perc_com_coord (por_polo ! i)) (perc_com_coord (por_polo ! Suc i))) \<and>
     (\<forall>row\<in>set por_gre \<union> set por_polo. perc_com_coord row \<noteq> NaN)"
  using assms
  by (auto simp: agg_por_gre_def agg_por_polo_def Let_def resumo_of_adjacent resumo_of_not_NaN)

theorem C6_sorted_desc_witness:
  "''GRE'' \<in> set (columns total0) \<and> ''POLO'' \<in> set (columns total0) \<and>
   ''ESCOLA'' \<in> set (columns total0) \<and>
   (\<exists>por_gre por_polo.
     agg_por_gre coord0 total0 = Inr por_gre \<and>
     agg_por_polo coord0 total0 (ascii ''R1'') = Inr por_polo \<and>
     (\<forall>i. Suc i < length por_gre \<longrightarrow>
        fge (perc_com_coord (por_gre ! i)) (perc_com_coord (por_gre ! Suc i))) \<and>
     (\<forall>i. Suc i < length por_polo \<longrightarrow>
        fge (perc_com_coord (por_polo ! i)) (perc_com_coord (por_polo ! Suc i))) \<and>
     (\<forall>row\<in>set por_gre \<union> set por_polo. perc_com_coord row \<noteq> NaN))"
proof -
  have h: "''GRE'' \<in> set (columns total0)" "''POLO'' \<in> set (columns total0)"
    "''ESCOLA'' \<in> set (columns total0)"
    by (simp_all add: total0_def)
  from C6_sorted_desc [OF h, of coord0 "ascii ''R1''"] show ?thesis
    using h by blast
qed

section \<open>The summary of a hub\<close>

lemma sum_groupby_size: "sum_list (map snd (groupby_size xs)) = length xs"
proof -
  have c: "(\<lambda>k. length (filter (\<lambda>x. x = k) xs)) = count_list xs"
    by (simp add: fun_eq_iff count_list_eq_length_filter eq_commute)
  have "sum_list (map snd (groupby_size xs)) =
      sum_list (map (count_list xs) (sort (remdups xs)))"
    by (simp add: groupby_size_def comp_def c)
  also have "\<dots> = sum (count_list xs) (set xs)"
    by (simp add: sum_list_distinct_conv_sum_set)
  also have "\<dots> = length xs"
    by (simp add: sum_count_set)
  finally show ?thesis .
qed

lemma resumo_status_polo_value:
  assumes "''GRE'' \<in> set (columns df_total)" and "''POLO'' \<in> set (columns df_total)"
    and "''ESCOLA'' \<in> set (columns df_total)"
  shows "\<exists>resumo registros.
     resumo_status_polo df_coord df_total gre polo = Inr (resumo, registros) \<and>
     map (\<lambda>row. (status row, qtd_registros row)) resumo = groupby_size (map rotulo registros) \<and>
     registros = map (marcar (mapa_coord df_coord))
        (filter (\<lambda>r. r ''GRE'' = Some gre \<and> r ''POLO'' = Some polo) (rows df_total))"
  using assms by (simp add: resumo_status_polo_def Let_def comp_def case_prod_beta)

text \<open>
  C7. When the totals table has the region, hub and school columns, the summary of a
  hub is returned and its counts add up to the number of rows of the totals table whose
  region and hub are the selected ones.
\<close>

theorem C7_sum_qtd_registros:
  assumes "''GRE'' \<in> set (columns df_total)" and "''POLO'' \<in> set (columns df_total)"
    and "''ESCOLA'' \<in> set (columns df_total)"
  shows "\<exists>resumo registros.
     resumo_status_polo df_coord df_total gre polo = Inr (resumo, registros) \<and>
     sum_list (map qtd_registros resumo) =
       length (filter (\<lambda>r. r ''GRE'' = Some gre \<and> r ''POLO'' = Some polo) (rows df_total))"
proof -
  from resumo_status_polo_value [OF assms, of df_coord gre polo] obtain resumo registros where
    r: "resumo_status_polo df_coord df_total gre polo = Inr (resumo, registros)" and
    g: "map (\<lambda>row. (status row, qtd_registros row)) resumo = groupby_size (map rotulo registros)" and
    m: "registros = map (marcar (mapa_coord df_coord))
        (filter (\<lambda>r. r ''GRE'' = Some gre \<and> r ''POLO'' = Some polo) (rows df_total))"
    by blast
  have "map qtd_registros resumo = map snd (map (\<lambda>row. (status row, qtd_registros row)) resumo)"
    by (simp add: comp_def)
  then have "sum_list (map qtd_registros resumo) = length (map rotulo registros)"
    by (simp only: g sum_groupby_size)
  with m have "sum_list (map qtd_registros resumo) =
       length (filter (\<lambda>r. r ''GRE'' = Some gre \<and> r ''POLO'' = Some polo) (rows df_total))"
    by simp
  with r show ?thesis by blast
qed

theorem C7_sum_qtd_registros_witness:
  "''GRE'' \<in> set (columns total0) \<and> ''POLO'' \<in> set (columns total0) \<and>
   ''ESCOLA'' \<in> set (columns total0) \<and>
   length (filter (\<lambda>r. r ''GRE'' = Some (ascii ''R1'') \<and> r ''POLO'' = Some (ascii ''P1''))
     (rows total0)) = 3 \<and>
   (\<exists>resumo registros.
     resumo_status_polo coord0 total0 (ascii ''R1'') (ascii ''P1'') = Inr (resumo, registros) \<and>
     sum_list (map qtd_registros resumo) = 3)"
proof -
  have h: "''GRE'' \<in> set (columns total0)" "''POLO'' \<in> set (columns total0)"
    "''ESCOLA'' \<in> set (columns total0)"
    by (simp_all add: total0_def)
  have n: "length (filter (\<lambda>r. r ''GRE'' = Some (ascii ''R1'') \<and> r ''POLO'' = Some (ascii ''P1''))
     (rows total0)) = 3"
    by (simp add: total0_def total_row_def ascii_def)
  from C7_sum_qtd_registros [OF h, of coord0 "ascii ''R1''" "ascii ''P1''"] show ?thesis
    using h n by simp
qed

text \<open>
  C8. When no row of the totals table has the selected region and hub, the summary is
  returned and is empty: no status group (so the total, the sum of the counts, is 0)
  and no record. The division of the count column by the total is a division of pandas
  columns, which gives infinity or \<^verbatim>\<open>NaN\<close> on a zero divisor and raises nothing.
\<close>

theorem C8_empty_polo:
  assumes "''GRE'' \<in> set (columns df_total)" and "''POLO'' \<in> set (columns df_total)"
    and "''ESCOLA'' \<in> set (columns df_total)"
    and "filter (\<lambda>r. r ''GRE'' = Some gre \<and> r ''POLO'' = Some polo) (rows df_total) = []"
  shows "resumo_status_polo df_coord df_total gre polo = Inr ([], [])"
  using assms by (simp add: resumo_status_polo_def groupby_size_def)

theorem C8_empty_polo_witness:
  "''GRE'' \<in> set (columns total0) \<and> ''POLO'' \<in> set (columns total0) \<and>
   ''ESCOLA'' \<in> set (columns total0) \<and>
   filter (\<lambda>r. r ''GRE'' = Some (ascii ''R1'') \<and> r ''POLO'' = Some (ascii ''P9'')) (rows total0) = [] \<and>
   resumo_status_polo coord0 total0 (ascii ''R1'') (ascii ''P9'') = Inr ([], [])"
proof -
  have h: "''GRE'' \<in> set (columns total0)" "''POLO'' \<in> set (columns total0)"
    "''ESCOLA'' \<in> set (columns total0)"
    by (simp_all add: total0_def)
  have n: "filter (\<lambda>r. r ''GRE'' = Some (ascii ''R1'') \<and> r ''POLO'' = Some (ascii ''P9''))
     (rows total0) = []"
    by (simp add: total0_def total_row_def ascii_def)
  from C8_empty_polo [OF h n, of coord0] show ?thesis
    using h n by simp
qed

section \<open>The detail table of a hub\<close>

lemma distinct_aux_keys: "distinct (map aux_ESCOLA (aux_of df_coord))"
  by (simp add: aux_of_def comp_def Let_def distinct_group_keys)

lemma filter_key_le_one:
  "distinct (map f xs) \<Longrightarrow> length (filter (\<lambda>a. k = Some (f a)) xs) \<le> 1"
proof (induction xs)
  case Nil
  show ?case by simp
next
  case (Cons x xs)
  show ?case
  proof (cases "k = Some (f x)")
    case True
    with Cons.prems have "filter (\<lambda>a. k = Some (f a)) xs = []"
      by (auto simp: filter_empty_conv)
    with True show ?thesis by simp
  next
    case False
    with Cons show ?thesis by simp
  qed
qed

lemma length_merge_rows:
  "distinct (map aux_ESCOLA aux) \<Longrightarrow> length (merge_rows registros aux) = length registros"
proof (induction registros)
  case Nil
  show ?case by (simp add: merge_rows_def)
next
  case (Cons r rs)
  have "length (filter (\<lambda>a. r ''ESCOLA'' = Some (aux_ESCOLA a)) aux) \<le> 1"
    using Cons.prems by (rule filter_key_le_one)
  then have "length (case filter (\<lambda>a. r ''ESCOLA'' = Some (aux_ESCOLA a)) aux of
          [] \<Rightarrow> [(r, None)]
        | ms \<Rightarrow> map (\<lambda>a. (r, Some a)) ms) = 1"
    by (cases "filter (\<lambda>a. r ''ESCOLA'' = Some (aux_ESCOLA a)) aux") simp_all
  moreover have "length (merge_rows rs aux) = length rs"
    using Cons by simp
  ultimately show ?case
    by (simp add: merge_rows_def)
qed

lemma detalhe_escolas_Inr:
  assumes "detalhe_escolas df_coord df_total gre polo = Inr tab"
  shows "''GRE'' \<in> set (columns df_total)" "''POLO'' \<in> set (columns df_total)"
    "''ESCOLA'' \<in> set (columns df_total)"
    "colunas tab = colunas_finais (columns df_total)"
    "linhas tab = map (\<lambda>m. map (final_cell m) (colunas_finais (columns df_total)))
       (merge_rows (filter (\<lambda>r. r ''GRE'' = Some gre \<and> r ''POLO'' = Some polo) (rows df_total))
          (aux_of df_coord))"
  using assms
  by (auto simp: detalhe_escolas_def split: if_splits)


lemma merge_columns_right_aux:
  "merge_columns_right left aux_columns ''ESCOLA'' =
     map (\<lambda>c. if c \<in> set left then c @ ''_y'' else c)
       [''INEP'', ''COORDENADOR'', ''TEM_COORDENADOR'', ''STATUS_COORDENADOR'']"
  by (simp add: merge_columns_right_def aux_columns_def)

lemma in_merge_columns_left:
  "c \<in> set left \<Longrightarrow> c \<notin> set right \<Longrightarrow> c \<in> set (merge_columns_left left right key)"
  by (auto simp: merge_columns_left_def image_iff intro!: bexI [of _ c])

lemma merge_columns_left_no_overlap:
  assumes "''INEP'' \<notin> set left" "''COORDENADOR'' \<notin> set left"
    "''TEM_COORDENADOR'' \<notin> set left" "''STATUS_COORDENADOR'' \<notin> set left"
  shows "merge_columns_left left aux_columns ''ESCOLA'' = left"
proof -
  have "(if c \<noteq> ''ESCOLA'' \<and> c \<in> set aux_columns then c @ ''_x'' else c) = c"
    if "c \<in> set left" for c
    using that assms by (auto simp: aux_columns_def)
  then show ?thesis
    unfolding merge_columns_left_def by (simp add: map_idI)
qed

lemma suffix_dups_same: "\<not> suffix_dups xs xs"
  by (simp add: suffix_dups_def list_ex_iff)

lemma colunas_finais_keys:
  assumes "''GRE'' \<in> set left" "''POLO'' \<in> set left"
  shows "colunas_finais left =
     [''GRE'', ''POLO'', ''ESCOLA''] @
     (if ''INEP'' \<in> set left then [] else [''INEP'']) @
     [''COORDENADOR'', ''STATUS_COORDENADOR'']"
proof -
  have g: "''GRE'' \<in> set (registros_columns left)" "''POLO'' \<in> set (registros_columns left)"
    using assms by (simp_all add: registros_columns_def in_merge_columns_left aux_columns_def)
  have l: "''INEP'' \<notin> set (merge_columns_left left aux_columns ''ESCOLA'')"
    by (auto simp: merge_columns_left_def aux_columns_def)
  have r: "''INEP'' \<in> set (merge_columns_right left aux_columns ''ESCOLA'') \<longleftrightarrow> ''INEP'' \<notin> set left"
    by (simp add: merge_columns_right_aux)
  have i: "''INEP'' \<in> set (registros_columns left) \<longleftrightarrow> ''INEP'' \<notin> set left"
    using l r by (simp add: registros_columns_def)
  show ?thesis
    by (simp add: colunas_finais_def g i)
qed

lemma detalhe_escolas_returns:
  assumes "''GRE'' \<in> set (columns df_total)" "''POLO'' \<in> set (columns df_total)"
    "''ESCOLA'' \<in> set (columns df_total)"
    "''INEP'' \<notin> set (columns df_total)" "''COORDENADOR'' \<notin> set (columns df_total)"
    "''TEM_COORDENADOR'' \<notin> set (columns df_total)"
    "''STATUS_COORDENADOR'' \<notin> set (columns df_total)"
  shows "\<exists>tab. detalhe_escolas df_coord df_total gre polo = Inr tab"
proof -
  have m: "merge_columns_left (columns df_total) aux_columns ''ESCOLA'' = columns df_total"
    using assms(4-7) by (rule merge_columns_left_no_overlap)
  have c: "''STATUS_COORDENADOR'' \<in> set (registros_columns (columns df_total))"
    "''COORDENADOR'' \<in> set (registros_columns (columns df_total))"
    using assms(5,7) by (simp_all add: registros_columns_def merge_columns_right_aux)
  show ?thesis
    using assms(1-3) c by (simp add: detalhe_escolas_def m suffix_dups_same)
qed

text \<open>
  When the totals table has an identifier column of its own, the merge renames both
  identifier columns (\<^verbatim>\<open>INEP_x\<close>, \<^verbatim>\<open>INEP_y\<close>) and the final table has none.
\<close>

lemma detalhe_escolas_total2:
  "map_sum id colunas (detalhe_escolas coord0 total2 (ascii ''R1'') (ascii ''P1'')) =
     Inr [''GRE'', ''POLO'', ''ESCOLA'', ''COORDENADOR'', ''STATUS_COORDENADOR'']"
proof -
  have m: "merge_columns_left (columns total2) aux_columns ''ESCOLA'' =
      [''GRE'', ''POLO'', ''ESCOLA'', ''INEP_x'']"
    by (simp add: total2_def merge_columns_left_def aux_columns_def)
  have d: "\<not> suffix_dups (columns total2) [''GRE'', ''POLO'', ''ESCOLA'', ''INEP_x'']"
    by (simp add: total2_def suffix_dups_def upt_rec)
  have c: "''STATUS_COORDENADOR'' \<in> set (registros_columns (columns total2))"
    "''COORDENADOR'' \<in> set (registros_columns (columns total2))"
    by (simp_all add: registros_columns_def merge_columns_right_aux total2_def)
  have k: "''GRE'' \<in> set (columns total2)" "''POLO'' \<in> set (columns total2)"
    "''ESCOLA'' \<in> set (columns total2)" "''INEP'' \<in> set (columns total2)"
    by (simp_all add: total2_def)
  show ?thesis
    using k c d by (simp add: detalhe_escolas_def m colunas_finais_keys)
qed


text \<open>
  C9. Whenever the builder returns a table, the table has as many rows as the totals
  table has rows with the selected region and hub: the auxiliary frame has one row per
  school, so the left join gives every record exactly once. The builder does return a
  table when the totals table has the region, hub and school columns and none of the
  other columns of the auxiliary frame.
\<close>

theorem C9_row_count:
  "(\<forall>tab. detalhe_escolas df_coord df_total gre polo = Inr tab \<longrightarrow>
      length (linhas tab) =
        length (filter (\<lambda>r. r ''GRE'' = Some gre \<and> r ''POLO'' = Some polo) (rows df_total))) \<and>
   (''GRE'' \<in> set (columns df_total) \<and> ''POLO'' \<in> set (columns df_total) \<and>
    ''ESCOLA'' \<in> set (columns df_total) \<and> ''INEP'' \<notin> set (columns df_total) \<and>
    ''COORDENADOR'' \<notin> set (columns df_total) \<and> ''TEM_COORDENADOR'' \<notin> set (columns df_total) \<and>
    ''STATUS_COORDENADOR'' \<notin> set (columns df_total) \<longrightarrow>
    (\<exists>tab. detalhe_escolas df_coord df_total gre polo = Inr tab))"
proof (intro conjI allI impI)
  fix tab
  assume "detalhe_escolas df_coord df_total gre polo = Inr tab"
  then have "linhas tab = map (\<lambda>m. map (final_cell m) (colunas_finais (columns df_total)))
       (merge_rows (filter (\<lambda>r. r ''GRE'' = Some gre \<and> r ''POLO'' = Some polo) (rows df_total))
          (aux_of df_coord))"
    by (rule detalhe_escolas_Inr(5))
  then show "length (linhas tab) =
        length (filter (\<lambda>r. r ''GRE'' = Some gre \<and> r ''POLO'' = Some polo) (rows df_total))"
    by (simp add: length_merge_rows distinct_aux_keys)
next
  assume "''GRE'' \<in> set (columns df_total) \<and> ''POLO'' \<in> set (columns df_total) \<and>
    ''ESCOLA'' \<in> set (columns df_total) \<and> ''INEP'' \<notin> set (columns df_total) \<and>
    ''COORDENADOR'' \<notin> set (columns df_total) \<and> ''TEM_COORDENADOR'' \<notin> set (columns df_total) \<and>
    ''STATUS_COORDENADOR'' \<notin> set (columns df_total)"
  then show "\<exists>tab. detalhe_escolas df_coord df_total gre polo = Inr tab"
    by (intro detalhe_escolas_returns) simp_all
qed

lemma total0_header:
  "''GRE'' \<in> set (columns total0) \<and> ''POLO'' \<in> set (columns total0) \<and>
    ''ESCOLA'' \<in> set (columns total0) \<and> ''INEP'' \<notin> set (columns total0) \<and>
    ''COORDENADOR'' \<notin> set (columns total0) \<and> ''TEM_COORDENADOR'' \<notin> set (columns total0) \<and>
    ''STATUS_COORDENADOR'' \<notin> set (columns total0)"
  by (simp add: total0_def)

lemma total0_R1_P1:
  "length (filter (\<lambda>r. r ''GRE'' = Some (ascii ''R1'') \<and> r ''POLO'' = Some (ascii ''P1''))
     (rows total0)) = 3"
  by (simp add: total0_def total_row_def ascii_def)

theorem C9_row_count_witness:
  "(''GRE'' \<in> set (columns total0) \<and> ''POLO'' \<in> set (columns total0) \<and>
    ''ESCOLA'' \<in> set (columns total0) \<and> ''INEP'' \<notin> set (columns total0) \<and>
    ''COORDENADOR'' \<notin> set (columns total0) \<and> ''TEM_COORDENADOR'' \<notin> set (columns total0) \<and>
    ''STATUS_COORDENADOR'' \<notin> set (columns total0)) \<and>
   (\<exists>tab. detalhe_escolas coord0 total0 (ascii ''R1'') (ascii ''P1'') = Inr tab \<and>
      length (linhas tab) = 3)"
  using C9_row_count [of coord0 total0 "ascii ''R1''" "ascii ''P1''"] total0_header total0_R1_P1
  by metis

text \<open>
  C10, as the code has it. A table that the builder returns for a totals table without
  an identifier column has the six columns region, hub, school, identifier, coordinator
  name, status, in this order; the identifier comes from the coordinator table. The
  region and hub columns are never left out: a totals table that lacks one of them
  makes the builder fail with a lookup error.
\<close>

theorem C10_columns:
  "(\<forall>tab. detalhe_escolas df_coord df_total gre polo = Inr tab \<and>
       ''INEP'' \<notin> set (columns df_total) \<longrightarrow>
      colunas tab =
        [''GRE'', ''POLO'', ''ESCOLA'', ''INEP'', ''COORDENADOR'', ''STATUS_COORDENADOR'']) \<and>
   (''GRE'' \<notin> set (columns df_total) \<longrightarrow>
      detalhe_escolas df_coord df_total gre polo = Inl (KeyError ''GRE'')) \<and>
   (''GRE'' \<in> set (columns df_total) \<and> ''POLO'' \<notin> set (columns df_total) \<longrightarrow>
      detalhe_escolas df_coord df_total gre polo = Inl (KeyError ''POLO''))"
proof (intro conjI allI impI)
  fix tab
  assume a: "detalhe_escolas df_coord df_total gre polo = Inr tab \<and>
       ''INEP'' \<notin> set (columns df_total)"
  then have r: "detalhe_escolas df_coord df_total gre polo = Inr tab"
    by simp
  note detalhe_escolas_Inr(4,1,2) [OF r]
  with a show "colunas tab =
        [''GRE'', ''POLO'', ''ESCOLA'', ''INEP'', ''COORDENADOR'', ''STATUS_COORDENADOR'']"
    by (simp add: colunas_finais_keys)
next
  assume "''GRE'' \<notin> set (columns df_total)"
  then show "detalhe_escolas df_coord df_total gre polo = Inl (KeyError ''GRE'')"
    by (simp add: detalhe_escolas_def)
next
  assume "''GRE'' \<in> set (columns df_total) \<and> ''POLO'' \<notin> set (columns df_total)"
  then show "detalhe_escolas df_coord df_total gre polo = Inl (KeyError ''POLO'')"
    by (simp add: detalhe_escolas_def)
qed

theorem C10_columns_witness:
  "''INEP'' \<notin> set (columns total0) \<and>
   (\<exists>tab. detalhe_escolas coord0 total0 (ascii ''R1'') (ascii ''P1'') = Inr tab \<and>
      colunas tab =
        [''GRE'', ''POLO'', ''ESCOLA'', ''INEP'', ''COORDENADOR'', ''STATUS_COORDENADOR'']) \<and>
   ''GRE'' \<notin> set (columns \<lparr> columns = [''ESCOLA''], rows = [] \<rparr>) \<and>
   detalhe_escolas coord0 \<lparr> columns = [''ESCOLA''], rows = [] \<rparr> (ascii ''R1'') (ascii ''P1'') =
     Inl (KeyError ''GRE'') \<and>
   ''GRE'' \<in> set (columns \<lparr> columns = [''GRE'', ''ESCOLA''], rows = [] \<rparr>) \<and>
   ''POLO'' \<notin> set (columns \<lparr> columns = [''GRE'', ''ESCOLA''], rows = [] \<rparr>) \<and>
   detalhe_escolas coord0 \<lparr> columns = [''GRE'', ''ESCOLA''], rows = [] \<rparr> (ascii ''R1'') (ascii ''P1'') =
     Inl (KeyError ''POLO'')"
proof -
  obtain tab where t: "detalhe_escolas coord0 total0 (ascii ''R1'') (ascii ''P1'') = Inr tab"
    using detalhe_escolas_returns [of total0 coord0 "ascii ''R1''" "ascii ''P1''"] total0_header
    by blast
  have g: "''GRE'' \<notin> set (columns \<lparr> columns = [''ESCOLA''], rows = [] \<rparr>)"
    by simp
  have p: "''GRE'' \<in> set (columns \<lparr> columns = [''GRE'', ''ESCOLA''], rows = [] \<rparr>)"
    "''POLO'' \<notin> set (columns \<lparr> columns = [''GRE'', ''ESCOLA''], rows = [] \<rparr>)"
    by simp_all
  have i: "''INEP'' \<notin> set (columns total0)"
    using total0_header by blast
  from C10_columns [of coord0 total0 "ascii ''R1''" "ascii ''P1''"] t i
  have 1: "colunas tab =
        [''GRE'', ''POLO'', ''ESCOLA'', ''INEP'', ''COORDENADOR'', ''STATUS_COORDENADOR'']"
    by blast
  from C10_columns [of coord0 "\<lparr> columns = [''ESCOLA''], rows = [] \<rparr>" "ascii ''R1''" "ascii ''P1''"] g
  have 2: "detalhe_escolas coord0 \<lparr> columns = [''ESCOLA''], rows = [] \<rparr> (ascii ''R1'') (ascii ''P1'') =
     Inl (KeyError ''GRE'')"
    by blast
  from C10_columns [of coord0 "\<lparr> columns = [''GRE'', ''ESCOLA''], rows = [] \<rparr>" "ascii ''R1''" "ascii ''P1''"] p
  have 3: "detalhe_escolas coord0 \<lparr> columns = [''GRE'', ''ESCOLA''], rows = [] \<rparr> (ascii ''R1'') (ascii ''P1'') =
     Inl (KeyError ''POLO'')"
    by blast
  show ?thesis
    using t 1 2 3 g p i by blast
qed

text \<open>
  C10 as stated fails: the totals table has no identifier column and the table of the
  builder has one.
\<close>

theorem C10_inep_counterexample:
  "''INEP'' \<notin> set (columns total0) \<and>
   map_sum id colunas (detalhe_escolas coord0 total0 (ascii ''R1'') (ascii ''P1'')) =
     Inr [''GRE'', ''POLO'', ''ESCOLA'', ''INEP'', ''COORDENADOR'', ''STATUS_COORDENADOR'']"
proof -
  obtain tab where t: "detalhe_escolas coord0 total0 (ascii ''R1'') (ascii ''P1'') = Inr tab"
    using detalhe_escolas_returns [of total0 coord0 "ascii ''R1''" "ascii ''P1''"] total0_header
    by blast
  then have "colunas tab = colunas_finais (columns total0)"
    by (rule detalhe_escolas_Inr(4))
  then have "colunas tab =
      [''GRE'', ''POLO'', ''ESCOLA'', ''INEP'', ''COORDENADOR'', ''STATUS_COORDENADOR'']"
    by (simp add: colunas_finais_keys total0_def)
  with t show ?thesis
    using total0_header by simp
qed

text \<open>
  The detail table of a school whose row in the coordinator table has no coordinator
  name: the loader has given the row the flag \<open>True\<close>, and the table shows the
  sentinel as the name next to the status of a school with a coordinator.
\<close>

lemma coord2_row:
  "coord2 = [sheet_row.extend (sheet_de ''R1'' ''P1'' ''A'' None)
      \<lparr> TEM_COORDENADOR = True, STATUS_COORDENADOR = Com_Coordenador \<rparr>]"
  by (simp add: coord2_def load_data_coordenadores_def derive_row_def tem_coordenador_def
      fillna_def str_lower_def str_strip_def sem_informacao_def ascii_def status_of_def sheet_de_def)

lemma aux_of_coord2:
  "aux_of coord2 =
     [\<lparr> aux_ESCOLA = ascii ''A'', aux_INEP = Some (ascii ''26000000''), aux_COORDENADOR = None,
        aux_TEM_COORDENADOR = True, aux_STATUS_COORDENADOR = Some Com_Coordenador \<rparr>]"
  by (simp add: coord2_row aux_of_def group_keys_def dropna_def first_valid_def sheet_de_def
      sheet_row.defs Let_def)

lemma detalhe_escolas_coord2:
  "map_sum id linhas (detalhe_escolas coord2 total1 (ascii ''R1'') (ascii ''P1'')) =
     Inr [[Some (ascii ''R1''), Some (ascii ''P1''), Some (ascii ''A''), Some (ascii ''26000000''),
           Some Sem_informacao, Some Com_Coordenador]]"
proof -
  have k: "''GRE'' \<in> set (columns total1)" "''POLO'' \<in> set (columns total1)"
    "''ESCOLA'' \<in> set (columns total1)" "''INEP'' \<notin> set (columns total1)"
    "''COORDENADOR'' \<notin> set (columns total1)" "''TEM_COORDENADOR'' \<notin> set (columns total1)"
    "''STATUS_COORDENADOR'' \<notin> set (columns total1)"
    by (simp_all add: total1_def)
  from detalhe_escolas_returns [OF k, of coord2 "ascii ''R1''" "ascii ''P1''"]
  obtain tab where t: "detalhe_escolas coord2 total1 (ascii ''R1'') (ascii ''P1'') = Inr tab"
    by blast
  have c: "colunas_finais (columns total1) =
      [''GRE'', ''POLO'', ''ESCOLA'', ''INEP'', ''COORDENADOR'', ''STATUS_COORDENADOR'']"
    using k by (simp add: colunas_finais_keys)
  have f: "filter (\<lambda>r. r ''GRE'' = Some (ascii ''R1'') \<and> r ''POLO'' = Some (ascii ''P1''))
      (rows total1) = [total_row ''R1'' ''P1'' ''A'']"
    by (simp add: total1_def total_row_def)
  have m: "merge_rows [total_row ''R1'' ''P1'' ''A''] (aux_of coord2) =
      [(total_row ''R1'' ''P1'' ''A'', Some (hd (aux_of coord2)))]"
    by (simp add: merge_rows_def aux_of_coord2 total_row_def)
  have "linhas tab =
      [[Some (ascii ''R1''), Some (ascii ''P1''), Some (ascii ''A''), Some (ascii ''26000000''),
           Some Sem_informacao, Some Com_Coordenador]]"
    unfolding detalhe_escolas_Inr(5) [OF t] c f m
    by (simp add: final_cell_def aux_of_coord2 total_row_def fillna_def)
  with t show ?thesis by simp
qed

end
